theory Spec2Isabelle
  imports Main "HOL-Library.Sublist"
begin

section \<open>The data-access module of the shop application (express_server/queries.ts)\<close>

text \<open>
  The module is a flat set of asynchronous functions. Each sends SQL statements with bound
  parameters through one shared client (\<open>sequelize.query\<close>) and returns what the client
  returns. The model has two layers:
  \<^item> the client and the database behind it: a \<open>world\<close> holding the tables the connection
    sees, the snapshot of an open transaction, the clock, the statements sent so far, the
    console, and a schedule of client failures;
  \<^item> the nineteen functions of the module, each a function from the world to a result and
    the new world. A rejected promise is \<open>Inl\<close>, a fulfilled one \<open>Inr\<close>; the value
    \<open>undefined\<close> of a function that ends without \<open>return\<close> is \<open>None\<close>.
\<close>

subsection \<open>Rows and parameter objects\<close>

text \<open>
  Identifiers are the values of the key columns, natural numbers here; the module passes
  them through as bound parameters and never computes with them. Dates and timestamps are
  the strings the database prints. Prices are carried opaquely.

  A quantity reaches the module as a JavaScript number and is written into a column of
  one of PostgreSQL's integer types. The model takes the integer the number denotes. A
  number denotes an integer, and prints it into the statement, exactly only between
  -2^53 and 2^53 (\<open>safe_integer\<close>), and a column holds only the integers of its
  type (\<open>in_range\<close>); the properties about what is stored are stated within both.
\<close>

datatype int_type = SmallInt | Integer | BigInt

definition in_range :: "int_type \<Rightarrow> int \<Rightarrow> bool" where
  "in_range ty n =
     (case ty of
        SmallInt \<Rightarrow> - 32768 \<le> n \<and> n \<le> 32767
      | Integer \<Rightarrow> - 2147483648 \<le> n \<and> n \<le> 2147483647
      | BigInt \<Rightarrow> - 9223372036854775808 \<le> n \<and> n \<le> 9223372036854775807)"

definition safe_integer :: "int \<Rightarrow> bool" where
  "safe_integer n = (- 9007199254740992 < n \<and> n < 9007199254740992)"

type_synonym ident = nat
type_synonym date = string

record user_row =
  u_userid :: ident
  u_email :: string
  u_firstname :: string
  u_lastname :: string
  u_dob :: date
  u_password :: string

record shop_row =
  s_shopid :: ident
  s_shopname :: string
  s_establishdate :: date
  s_description :: string
  s_ownerid :: ident

record product_row =
  p_productid :: ident
  p_shopid :: ident
  p_price :: int
  p_name :: string
  p_quantity :: int
  p_description :: string

record order_row =
  o_orderid :: ident
  o_buyer :: ident
  o_shop :: ident
  o_product :: ident
  o_quantity :: int
  o_ordertime :: date

text \<open>
  The parameter objects, with the fields the functions read from them:
  \<open>ISignUpInfo\<close> (createUser), \<open>ICreateShopInfo\<close> (createShop),
  \<open>ICreateProductInfo\<close> (createProduct), \<open>ICreateOrderInfo\<close> (createOrder).
  updateUserData takes an \<open>IUserInfoView\<close>, which has the fields of a user row.
\<close>

record signup_info =
  su_email :: string
  su_firstname :: string
  su_lastname :: string
  su_dob :: date
  su_password :: string

record create_shop_info =
  cs_shopname :: string
  cs_description :: string
  cs_ownerid :: ident

record create_product_info =
  cp_shopid :: ident
  cp_price :: int
  cp_name :: string
  cp_quantity :: int
  cp_description :: string

record create_order_info =
  co_userid :: ident
  co_shopid :: ident
  co_productid :: ident
  co_quantity :: int

subsection \<open>Statements\<close>

text \<open>
  One constructor for each statement text of the module; the arguments are the bound
  parameters (\<open>replacements\<close>) in the order the source lists them. \<open>CURRENT_DATE\<close> and
  \<open>CURRENT_TIMESTAMP\<close> are part of the statement text, not parameters.
\<close>

datatype table_name = Users | Shops | Sellers | Products | Orders

datatype stmt =
    Begin
  | Commit
  | Rollback
  | LockTable table_name
  | InsertUser string string string date string
  | InsertShop string string ident
  | InsertSeller ident
  | InsertProduct ident int string int string
  | InsertOrder ident ident ident int
  | UpdateProductQuantity int ident ident
  | UpdateUser ident string string string date string ident
  | SelectAllShops
  | SelectProductsOfShop ident
  | SelectShop ident
  | SelectUserExists string
  | SelectUserByEmail string
  | SelectUserByID ident
  | SelectUserByEmailAndPassword string string
  | SelectShopsOwnedBy ident
  | SelectOrdersOfBuyer ident
  | SelectProduct ident ident
  | SelectProductsOfShopLike ident string
  | SelectShopsLike string

datatype error =
    ConnectionError
  | UniqueViolation
  | ForeignKeyViolation
  | NumericValueOutOfRange
  | TypeError

text \<open>
  What the client hands back: the rows of a SELECT, typed by the view or table read, or
  for the other statements the pair \<open>[results, metadata]\<close>. None of the module's
  statements has a RETURNING clause, so \<open>results\<close> has no rows; \<open>metadata\<close> is the number
  of rows affected.
\<close>

datatype reply =
    UserRows "user_row list"
  | ShopRows "shop_row list"
  | ProductRows "product_row list"
  | OrderRows "order_row list"
  | ExistsRows "bool list"
  | Written "string list" nat

datatype log_entry = Printed | Failure string error

subsection \<open>The database\<close>

text \<open>
  The tables, with the integer types of the two quantity columns. The types belong to the
  schema, which is not part of the module: they are parameters, and no statement of the
  module changes them.
\<close>

record tables =
  products_quantity_type :: int_type
  orders_quantity_type :: int_type
  users :: "user_row list"
  shops :: "shop_row list"
  sellers :: "ident list"
  products :: "product_row list"
  orders :: "order_row list"

record world =
  cur :: tables
  saved :: "tables option"
  today :: date
  now :: date
  faults :: "bool list"
  issued :: "stmt list"
  console :: "log_entry list"

text \<open>The key a table gives to a new row: one above every key in use.\<close>

definition new_id :: "ident list \<Rightarrow> ident" where
  "new_id ks = Suc (fold max ks 0)"

subsubsection \<open>LOWER and LIKE\<close>

definition lower_char :: "char \<Rightarrow> char" where
  "lower_char c =
     (let n = (of_char c :: nat) in if 65 \<le> n \<and> n \<le> 90 then char_of (n + 32) else c)"

definition lower :: "string \<Rightarrow> string" where
  "lower s = map lower_char s"

text \<open>
  \<open>like_match p s\<close>: the string \<open>s\<close> matches the LIKE pattern \<open>p\<close>. A percent sign
  matches any run of characters, an underscore any one character, and a backslash makes
  the next pattern character literal. (A pattern ending in a lone backslash is an error in
  the database; the module's patterns end in a percent sign, and the model gives False.)
\<close>

fun like_match :: "string \<Rightarrow> string \<Rightarrow> bool" where
  "like_match [] s = (s = [])"
| "like_match (c # p) [] = (c = CHR ''%'' \<and> like_match p [])"
| "like_match (c # p) (x # s) =
     (if c = CHR ''%'' then like_match p (x # s) \<or> like_match (c # p) s
      else if c = CHR ''_'' then like_match p s
      else if c = CHR 0x5C then (case p of [] \<Rightarrow> False | q # p' \<Rightarrow> x = q \<and> like_match p' s)
      else x = c \<and> like_match p s)"

subsubsection \<open>Views and constraints\<close>

text \<open>
  Modelled from the spec: the schema (the view definitions and the table constraints) is
  not part of the module. A view is "a read-only, precomputed relational query exposed as
  if it were a table"; each of the four views of the module is taken to expose the rows
  of its base table, under the column names the module's queries use. The constraints are
  those of the spec's data model: emails are unique, and an owner, a seller, a product's
  shop and an order's buyer, shop and product must exist. A quantity must fit the integer
  type of its column; nothing else constrains it.
\<close>

definition UserInfoView :: "tables \<Rightarrow> user_row list" where
  "UserInfoView t = users t"

definition ShopInfoView :: "tables \<Rightarrow> shop_row list" where
  "ShopInfoView t = shops t"

definition ProductInfoView :: "tables \<Rightarrow> product_row list" where
  "ProductInfoView t = products t"

definition OrdersInfoView :: "tables \<Rightarrow> order_row list" where
  "OrdersInfoView t = orders t"

definition user_exists :: "tables \<Rightarrow> ident \<Rightarrow> bool" where
  "user_exists t k = (k \<in> set (map u_userid (users t)))"

definition shop_exists :: "tables \<Rightarrow> ident \<Rightarrow> bool" where
  "shop_exists t k = (k \<in> set (map s_shopid (shops t)))"

definition product_exists :: "tables \<Rightarrow> ident \<Rightarrow> bool" where
  "product_exists t k = (k \<in> set (map p_productid (products t)))"

subsubsection \<open>The meaning of a statement on the tables\<close>

text \<open>
  \<open>run_stmt d ts st t\<close> runs the statement \<open>st\<close> on the tables \<open>t\<close> when CURRENT_DATE is
  \<open>d\<close> and CURRENT_TIMESTAMP is \<open>ts\<close>. A statement that violates a constraint, or
  carries a quantity outside the range of its column, fails as a whole and changes
  nothing. Transaction control has no meaning at this level.
\<close>

fun run_stmt :: "date \<Rightarrow> date \<Rightarrow> stmt \<Rightarrow> tables \<Rightarrow> error + reply \<times> tables" where
  "run_stmt d ts (InsertUser e f l b p) t =
     (if e \<in> set (map u_email (users t)) then Inl UniqueViolation
      else Inr (Written [] 1,
        t\<lparr>users := users t @
          [\<lparr>u_userid = new_id (map u_userid (users t)), u_email = e, u_firstname = f,
            u_lastname = l, u_dob = b, u_password = p\<rparr>]\<rparr>))"
| "run_stmt d ts (InsertShop n ds ow) t =
     (if \<not> user_exists t ow then Inl ForeignKeyViolation
      else Inr (Written [] 1,
        t\<lparr>shops := shops t @
          [\<lparr>s_shopid = new_id (map s_shopid (shops t)), s_shopname = n,
            s_establishdate = d, s_description = ds, s_ownerid = ow\<rparr>]\<rparr>))"
| "run_stmt d ts (InsertSeller k) t =
     (if \<not> user_exists t k then Inl ForeignKeyViolation
      else Inr (Written [] 1, t\<lparr>sellers := sellers t @ [k]\<rparr>))"
| "run_stmt d ts (InsertProduct sh pr n q ds) t =
     (if \<not> in_range (products_quantity_type t) q then Inl NumericValueOutOfRange
      else if \<not> shop_exists t sh then Inl ForeignKeyViolation
      else Inr (Written [] 1,
        t\<lparr>products := products t @
          [\<lparr>p_productid = new_id (map p_productid (products t)), p_shopid = sh,
            p_price = pr, p_name = n, p_quantity = q, p_description = ds\<rparr>]\<rparr>))"
| "run_stmt d ts (InsertOrder b sh pr q) t =
     (if \<not> in_range (orders_quantity_type t) q then Inl NumericValueOutOfRange
      else if \<not> (user_exists t b \<and> shop_exists t sh \<and> product_exists t pr)
      then Inl ForeignKeyViolation
      else Inr (Written [] 1,
        t\<lparr>orders := orders t @
          [\<lparr>o_orderid = new_id (map o_orderid (orders t)), o_buyer = b, o_shop = sh,
            o_product = pr, o_quantity = q, o_ordertime = ts\<rparr>]\<rparr>))"
| "run_stmt d ts (UpdateProductQuantity q sh pr) t =
     (if \<not> in_range (products_quantity_type t) q then Inl NumericValueOutOfRange
      else Inr (Written []
                 (length (filter (\<lambda>r. p_shopid r = sh \<and> p_productid r = pr) (products t))),
        t\<lparr>products :=
            map (\<lambda>r. if p_shopid r = sh \<and> p_productid r = pr then r\<lparr>p_quantity := q\<rparr> else r)
              (products t)\<rparr>))"
| "run_stmt d ts (UpdateUser k f l e b p k') t =
     (let us = map (\<lambda>r. if u_userid r = k'
                         then \<lparr>u_userid = k, u_email = e, u_firstname = f, u_lastname = l,
                               u_dob = b, u_password = p\<rparr>
                         else r) (users t)
      in if \<not> distinct (map u_email us) then Inl UniqueViolation
         else Inr (Written [] (length (filter (\<lambda>r. u_userid r = k') (users t))),
                   t\<lparr>users := us\<rparr>))"
| "run_stmt d ts SelectAllShops t = Inr (ShopRows (ShopInfoView t), t)"
| "run_stmt d ts (SelectProductsOfShop sh) t =
     Inr (ProductRows (filter (\<lambda>r. p_shopid r = sh) (ProductInfoView t)), t)"
| "run_stmt d ts (SelectShop sh) t =
     Inr (ShopRows (filter (\<lambda>r. s_shopid r = sh) (ShopInfoView t)), t)"
| "run_stmt d ts (SelectUserExists e) t =
     Inr (ExistsRows [e \<in> set (map u_email (users t))], t)"
| "run_stmt d ts (SelectUserByEmail e) t =
     Inr (UserRows (filter (\<lambda>r. u_email r = e) (UserInfoView t)), t)"
| "run_stmt d ts (SelectUserByID k) t =
     Inr (UserRows (filter (\<lambda>r. u_userid r = k) (UserInfoView t)), t)"
| "run_stmt d ts (SelectUserByEmailAndPassword e p) t =
     Inr (UserRows (filter (\<lambda>r. u_email r = e \<and> u_password r = p) (UserInfoView t)), t)"
| "run_stmt d ts (SelectShopsOwnedBy k) t =
     Inr (ShopRows (filter (\<lambda>r. s_ownerid r = k) (ShopInfoView t)), t)"
| "run_stmt d ts (SelectOrdersOfBuyer k) t =
     Inr (OrderRows (filter (\<lambda>r. o_buyer r = k) (OrdersInfoView t)), t)"
| "run_stmt d ts (SelectProduct sh pr) t =
     Inr (ProductRows (filter (\<lambda>r. p_shopid r = sh \<and> p_productid r = pr) (products t)), t)"
| "run_stmt d ts (SelectProductsOfShopLike sh pat) t =
     Inr (ProductRows
            (filter (\<lambda>r. p_shopid r = sh \<and> like_match pat (lower (p_name r))) (ProductInfoView t)),
          t)"
| "run_stmt d ts (SelectShopsLike pat) t =
     Inr (ShopRows (filter (\<lambda>r. like_match pat (lower (s_shopname r))) (ShopInfoView t)), t)"
| "run_stmt d ts Begin t = Inr (Written [] 0, t)"
| "run_stmt d ts Commit t = Inr (Written [] 0, t)"
| "run_stmt d ts Rollback t = Inr (Written [] 0, t)"
| "run_stmt d ts (LockTable n) t = Inr (Written [] 0, t)"

subsubsection \<open>Transactions and the client\<close>

text \<open>
  The connection sees the tables \<open>cur\<close>. BEGIN keeps a snapshot of them in \<open>saved\<close>;
  COMMIT drops the snapshot; ROLLBACK puts it back. BEGIN inside a transaction, and COMMIT
  or ROLLBACK outside one, succeed without effect. A single connection is modelled, so a
  table lock is always granted.
\<close>

definition engine :: "stmt \<Rightarrow> world \<Rightarrow> (error + reply) \<times> world" where
  "engine st w =
     (case st of
        Begin \<Rightarrow>
          (Inr (Written [] 0),
           (case saved w of None \<Rightarrow> w\<lparr>saved := Some (cur w)\<rparr> | Some t \<Rightarrow> w))
      | Commit \<Rightarrow> (Inr (Written [] 0), w\<lparr>saved := None\<rparr>)
      | Rollback \<Rightarrow>
          (Inr (Written [] 0),
           (case saved w of None \<Rightarrow> w | Some t \<Rightarrow> w\<lparr>cur := t, saved := None\<rparr>))
      | _ \<Rightarrow>
          (case run_stmt (today w) (now w) st (cur w) of
             Inl e \<Rightarrow> (Inl e, w)
           | Inr (r, t) \<Rightarrow> (Inr r, w\<lparr>cur := t\<rparr>)))"

text \<open>
  \<open>query st\<close> is \<open>sequelize.query\<close>: the statement is sent, and either the client fails
  (the next entry of the failure schedule is True; the statement then has no effect) or
  the database runs it. An exhausted schedule means no further client failure.
\<close>

definition query :: "stmt \<Rightarrow> world \<Rightarrow> (error + reply) \<times> world" where
  "query st w =
     (let w1 = w\<lparr>issued := issued w @ [st]\<rparr>
      in case faults w1 of
           [] \<Rightarrow> engine st w1
         | f # fs \<Rightarrow>
             if f then (Inl ConnectionError, w1\<lparr>faults := fs\<rparr>)
             else engine st (w1\<lparr>faults := fs\<rparr>))"

definition console_log :: "world \<Rightarrow> world" where
  "console_log w = w\<lparr>console := console w @ [Printed]\<rparr>"

definition console_error :: "string \<Rightarrow> error \<Rightarrow> world \<Rightarrow> world" where
  "console_error msg e w = w\<lparr>console := console w @ [Failure msg e]\<rparr>"

text \<open>The type annotations on the results of a query: the rows of the expected kind.\<close>

fun shop_rows :: "reply \<Rightarrow> shop_row list" where
  "shop_rows (ShopRows rs) = rs"
| "shop_rows _ = []"

fun product_rows :: "reply \<Rightarrow> product_row list" where
  "product_rows (ProductRows rs) = rs"
| "product_rows _ = []"

fun user_rows :: "reply \<Rightarrow> user_row list" where
  "user_rows (UserRows rs) = rs"
| "user_rows _ = []"

fun order_rows :: "reply \<Rightarrow> order_row list" where
  "order_rows (OrderRows rs) = rs"
| "order_rows _ = []"

fun exists_rows :: "reply \<Rightarrow> bool list" where
  "exists_rows (ExistsRows bs) = bs"
| "exists_rows _ = []"

fun results_of :: "reply \<Rightarrow> string list" where
  "results_of (Written rs n) = rs"
| "results_of _ = []"

fun metadata_of :: "reply \<Rightarrow> nat" where
  "metadata_of (Written rs n) = n"
| "metadata_of _ = 0"

subsection \<open>The functions of the module\<close>

subsubsection \<open>Read operations\<close>

text \<open>
  A read operation sends one SELECT, prints the rows and returns them. Nothing catches a
  failure of the query: the promise is rejected with the query's error.
\<close>

definition getAllShopsInfo :: "world \<Rightarrow> (error + shop_row list) \<times> world" where
  "getAllShopsInfo w =
     (case query SelectAllShops w of
        (Inl e, w1) \<Rightarrow> (Inl e, w1)
      | (Inr results, w1) \<Rightarrow> (Inr (shop_rows results), console_log w1))"

definition getAllProductsOfAShop :: "ident \<Rightarrow> world \<Rightarrow> (error + product_row list) \<times> world" where
  "getAllProductsOfAShop ShopID w =
     (case query (SelectProductsOfShop ShopID) w of
        (Inl e, w1) \<Rightarrow> (Inl e, w1)
      | (Inr results, w1) \<Rightarrow> (Inr (product_rows results), console_log w1))"

definition getShopInfo :: "ident \<Rightarrow> world \<Rightarrow> (error + shop_row list) \<times> world" where
  "getShopInfo ShopID w =
     (case query (SelectShop ShopID) w of
        (Inl e, w1) \<Rightarrow> (Inl e, w1)
      | (Inr results, w1) \<Rightarrow> (Inr (shop_rows results), console_log w1))"

text \<open>
  checkIfUserExists returns \<open>results[0].user_exists\<close>; reading a field of a missing first
  row is a TypeError (the SELECT EXISTS query always has one row).
\<close>

definition checkIfUserExists :: "string \<Rightarrow> world \<Rightarrow> (error + bool) \<times> world" where
  "checkIfUserExists email w =
     (case query (SelectUserExists email) w of
        (Inl e, w1) \<Rightarrow> (Inl e, w1)
      | (Inr results, w1) \<Rightarrow>
          (case exists_rows results of
             [] \<Rightarrow> (Inl TypeError, w1)
           | b # bs \<Rightarrow> (Inr b, console_log w1)))"

definition getUserInfoByEmail :: "string \<Rightarrow> world \<Rightarrow> (error + user_row list) \<times> world" where
  "getUserInfoByEmail email w =
     (case query (SelectUserByEmail email) w of
        (Inl e, w1) \<Rightarrow> (Inl e, w1)
      | (Inr results, w1) \<Rightarrow> (Inr (user_rows results), console_log w1))"

definition getUserInfoByID :: "ident \<Rightarrow> world \<Rightarrow> (error + user_row list) \<times> world" where
  "getUserInfoByID userid w =
     (case query (SelectUserByID userid) w of
        (Inl e, w1) \<Rightarrow> (Inl e, w1)
      | (Inr results, w1) \<Rightarrow> (Inr (user_rows results), console_log w1))"

definition getUserByEmailAndPassword :: "string \<Rightarrow> string \<Rightarrow> world \<Rightarrow> (error + user_row list) \<times> world" where
  "getUserByEmailAndPassword email password w =
     (case query (SelectUserByEmailAndPassword email password) w of
        (Inl e, w1) \<Rightarrow> (Inl e, w1)
      | (Inr results, w1) \<Rightarrow> (Inr (user_rows results), console_log w1))"

definition getShopsOwnedByUser :: "ident \<Rightarrow> world \<Rightarrow> (error + shop_row list) \<times> world" where
  "getShopsOwnedByUser userid w =
     (case query (SelectShopsOwnedBy userid) w of
        (Inl e, w1) \<Rightarrow> (Inl e, w1)
      | (Inr results, w1) \<Rightarrow> (Inr (shop_rows results), console_log w1))"

definition getUsersOrders :: "ident \<Rightarrow> world \<Rightarrow> (error + order_row list) \<times> world" where
  "getUsersOrders userid w =
     (case query (SelectOrdersOfBuyer userid) w of
        (Inl e, w1) \<Rightarrow> (Inl e, w1)
      | (Inr results, w1) \<Rightarrow> (Inr (order_rows results), console_log w1))"

definition getProduct :: "ident \<Rightarrow> ident \<Rightarrow> world \<Rightarrow> (error + product_row list) \<times> world" where
  "getProduct shopid productid w =
     (case query (SelectProduct shopid productid) w of
        (Inl e, w1) \<Rightarrow> (Inl e, w1)
      | (Inr results, w1) \<Rightarrow> (Inr (product_rows results), console_log w1))"

text \<open>The two searches bind the pattern \<open>`%${searchStr}%`\<close>.\<close>

definition getProductsOfShopLike :: "ident \<Rightarrow> string \<Rightarrow> world \<Rightarrow> (error + product_row list) \<times> world" where
  "getProductsOfShopLike shopid searchStr w =
     (case query (SelectProductsOfShopLike shopid (''%'' @ searchStr @ ''%'')) w of
        (Inl e, w1) \<Rightarrow> (Inl e, w1)
      | (Inr results, w1) \<Rightarrow> (Inr (product_rows results), console_log w1))"

definition getShopsLike :: "string \<Rightarrow> world \<Rightarrow> (error + shop_row list) \<times> world" where
  "getShopsLike searchStr w =
     (case query (SelectShopsLike (''%'' @ searchStr @ ''%'')) w of
        (Inl e, w1) \<Rightarrow> (Inl e, w1)
      | (Inr results, w1) \<Rightarrow> (Inr (shop_rows results), console_log w1))"

subsubsection \<open>Write operations\<close>

text \<open>
  A write operation is \<open>try { ... } catch (error) { ... }\<close>. The \<open>try\<close> block of each
  function is a definition of its own (suffix \<open>_try\<close>): it stops at the first query that
  fails, with that error. What a function returns on success is \<open>metadata\<close> (createUser)
  or \<open>results\<close> (the others).
\<close>

datatype retval = Results "string list" | Metadata nat

text \<open>
  The \<open>catch\<close> block, the same in the seven functions but for the message: print the
  error, then send ROLLBACK. The block has no \<open>return\<close>, so the function's value is
  \<open>undefined\<close>; the ROLLBACK is awaited outside any \<open>try\<close>, so its failure rejects the
  promise.
\<close>

definition catch_block :: "string \<Rightarrow> error \<Rightarrow> world \<Rightarrow> (error + retval option) \<times> world" where
  "catch_block msg error w =
     (case query Rollback (console_error msg error w) of
        (Inl e, w1) \<Rightarrow> (Inl e, w1)
      | (Inr r, w1) \<Rightarrow> (Inr None, w1))"

definition try_catch ::
  "(world \<Rightarrow> (error + retval) \<times> world) \<Rightarrow> string \<Rightarrow> world \<Rightarrow> (error + retval option) \<times> world" where
  "try_catch body msg w =
     (case body w of
        (Inl error, w1) \<Rightarrow> catch_block msg error w1
      | (Inr v, w1) \<Rightarrow> (Inr (Some v), w1))"

definition createUser_try :: "signup_info \<Rightarrow> world \<Rightarrow> (error + retval) \<times> world" where
  "createUser_try userInfo w =
     (case query Begin w of
        (Inl e, w1) \<Rightarrow> (Inl e, w1)
      | (Inr b, w1) \<Rightarrow>
          (case query
                  (InsertUser (su_email userInfo) (su_firstname userInfo) (su_lastname userInfo)
                      (su_dob userInfo) (su_password userInfo))
                  w1 of
             (Inl e, w2) \<Rightarrow> (Inl e, w2)
           | (Inr r, w2) \<Rightarrow>
               (case query Commit w2 of
                  (Inl e, w3) \<Rightarrow> (Inl e, w3)
                | (Inr c, w3) \<Rightarrow> (Inr (Metadata (metadata_of r)), console_log w3))))"

definition createUser :: "signup_info \<Rightarrow> world \<Rightarrow> (error + retval option) \<times> world" where
  "createUser userInfo w = try_catch (createUser_try userInfo) ''Failed to create user: '' w"

definition createShop_try :: "create_shop_info \<Rightarrow> world \<Rightarrow> (error + retval) \<times> world" where
  "createShop_try shopInfo w =
     (case query Begin w of
        (Inl e, w1) \<Rightarrow> (Inl e, w1)
      | (Inr b, w1) \<Rightarrow>
          (case query
                  (InsertShop (cs_shopname shopInfo) (cs_description shopInfo) (cs_ownerid shopInfo))
                  w1 of
             (Inl e, w2) \<Rightarrow> (Inl e, w2)
           | (Inr r, w2) \<Rightarrow>
               (case query Commit w2 of
                  (Inl e, w3) \<Rightarrow> (Inl e, w3)
                | (Inr c, w3) \<Rightarrow> (Inr (Results (results_of r)), console_log w3))))"

definition createShop :: "create_shop_info \<Rightarrow> world \<Rightarrow> (error + retval option) \<times> world" where
  "createShop shopInfo w = try_catch (createShop_try shopInfo) ''Failed to create shop: '' w"

definition makeSeller_try :: "ident \<Rightarrow> world \<Rightarrow> (error + retval) \<times> world" where
  "makeSeller_try userID w =
     (case query Begin w of
        (Inl e, w1) \<Rightarrow> (Inl e, w1)
      | (Inr b, w1) \<Rightarrow>
          (case query
                  (InsertSeller userID)
                  w1 of
             (Inl e, w2) \<Rightarrow> (Inl e, w2)
           | (Inr r, w2) \<Rightarrow>
               (case query Commit w2 of
                  (Inl e, w3) \<Rightarrow> (Inl e, w3)
                | (Inr c, w3) \<Rightarrow> (Inr (Results (results_of r)), console_log w3))))"

definition makeSeller :: "ident \<Rightarrow> world \<Rightarrow> (error + retval option) \<times> world" where
  "makeSeller userID w = try_catch (makeSeller_try userID) ''Failed to add user as a seller: '' w"

definition createProduct_try :: "create_product_info \<Rightarrow> world \<Rightarrow> (error + retval) \<times> world" where
  "createProduct_try productInfo w =
     (case query Begin w of
        (Inl e, w1) \<Rightarrow> (Inl e, w1)
      | (Inr b, w1) \<Rightarrow>
          (case query
                  (InsertProduct (cp_shopid productInfo) (cp_price productInfo) (cp_name productInfo)
                      (cp_quantity productInfo) (cp_description productInfo))
                  w1 of
             (Inl e, w2) \<Rightarrow> (Inl e, w2)
           | (Inr r, w2) \<Rightarrow>
               (case query Commit w2 of
                  (Inl e, w3) \<Rightarrow> (Inl e, w3)
                | (Inr c, w3) \<Rightarrow> (Inr (Results (results_of r)), console_log w3))))"

definition createProduct :: "create_product_info \<Rightarrow> world \<Rightarrow> (error + retval option) \<times> world" where
  "createProduct productInfo w = try_catch (createProduct_try productInfo) ''Failed to create product: '' w"

definition createOrder_try :: "create_order_info \<Rightarrow> world \<Rightarrow> (error + retval) \<times> world" where
  "createOrder_try createOrderInfo w =
     (case query Begin w of
        (Inl e, w1) \<Rightarrow> (Inl e, w1)
      | (Inr b, w1) \<Rightarrow>
          (case query
                  (InsertOrder (co_userid createOrderInfo) (co_shopid createOrderInfo)
                      (co_productid createOrderInfo) (co_quantity createOrderInfo))
                  w1 of
             (Inl e, w2) \<Rightarrow> (Inl e, w2)
           | (Inr r, w2) \<Rightarrow>
               (case query Commit w2 of
                  (Inl e, w3) \<Rightarrow> (Inl e, w3)
                | (Inr c, w3) \<Rightarrow> (Inr (Results (results_of r)), console_log w3))))"

definition createOrder :: "create_order_info \<Rightarrow> world \<Rightarrow> (error + retval option) \<times> world" where
  "createOrder createOrderInfo w = try_catch (createOrder_try createOrderInfo) ''Failed to create new order: '' w"

definition setProductQuantity_try :: "ident \<Rightarrow> ident \<Rightarrow> int \<Rightarrow> world \<Rightarrow> (error + retval) \<times> world" where
  "setProductQuantity_try shopid productid newQuantity w =
     (case query Begin w of
        (Inl e, w1) \<Rightarrow> (Inl e, w1)
      | (Inr b, w1) \<Rightarrow>
          (case query (LockTable Products) w1 of
             (Inl e, w2) \<Rightarrow> (Inl e, w2)
           | (Inr l, w2) \<Rightarrow>
               (case query
                       (UpdateProductQuantity newQuantity shopid productid)
                       w2 of
                  (Inl e, w3) \<Rightarrow> (Inl e, w3)
                | (Inr r, w3) \<Rightarrow>
                    (case query Commit w3 of
                       (Inl e, w4) \<Rightarrow> (Inl e, w4)
                     | (Inr c, w4) \<Rightarrow> (Inr (Results (results_of r)), console_log w4)))))"

definition setProductQuantity :: "ident \<Rightarrow> ident \<Rightarrow> int \<Rightarrow> world \<Rightarrow> (error + retval option) \<times> world" where
  "setProductQuantity shopid productid newQuantity w = try_catch (setProductQuantity_try shopid productid newQuantity) ''Failed to update product quantity: '' w"

definition updateUserData_try :: "user_row \<Rightarrow> world \<Rightarrow> (error + retval) \<times> world" where
  "updateUserData_try newUserInfo w =
     (case query Begin w of
        (Inl e, w1) \<Rightarrow> (Inl e, w1)
      | (Inr b, w1) \<Rightarrow>
          (case query (LockTable Users) w1 of
             (Inl e, w2) \<Rightarrow> (Inl e, w2)
           | (Inr l, w2) \<Rightarrow>
               (case query
                       (UpdateUser (u_userid newUserInfo) (u_firstname newUserInfo) (u_lastname newUserInfo)
                           (u_email newUserInfo) (u_dob newUserInfo) (u_password newUserInfo)
                           (u_userid newUserInfo))
                       w2 of
                  (Inl e, w3) \<Rightarrow> (Inl e, w3)
                | (Inr r, w3) \<Rightarrow>
                    (case query Commit w3 of
                       (Inl e, w4) \<Rightarrow> (Inl e, w4)
                     | (Inr c, w4) \<Rightarrow> (Inr (Results (results_of r)), console_log w4)))))"

definition updateUserData :: "user_row \<Rightarrow> world \<Rightarrow> (error + retval option) \<times> world" where
  "updateUserData newUserInfo w = try_catch (updateUserData_try newUserInfo) ''Failed to update user info:'' w"

subsubsection \<open>Calls through the exported object\<close>

text \<open>
  The module exports one object, \<open>queries\<close>, with the nineteen functions as its fields.
  A call of a write operation through it is a \<open>write_call\<close>, a call of a read operation
  a \<open>read_call\<close>.
\<close>

datatype write_call =
    CreateUser signup_info
  | CreateShop create_shop_info
  | MakeSeller ident
  | CreateProduct create_product_info
  | CreateOrder create_order_info
  | SetProductQuantity ident ident int
  | UpdateUserData user_row

fun call_write :: "write_call \<Rightarrow> world \<Rightarrow> (error + retval option) \<times> world" where
  "call_write (CreateUser userInfo) w = createUser userInfo w"
| "call_write (CreateShop shopInfo) w = createShop shopInfo w"
| "call_write (MakeSeller userID) w = makeSeller userID w"
| "call_write (CreateProduct productInfo) w = createProduct productInfo w"
| "call_write (CreateOrder createOrderInfo) w = createOrder createOrderInfo w"
| "call_write (SetProductQuantity shopid productid newQuantity) w =
     setProductQuantity shopid productid newQuantity w"
| "call_write (UpdateUserData newUserInfo) w = updateUserData newUserInfo w"

text \<open>The \<open>try\<close> block of the function a write call runs.\<close>

fun write_try :: "write_call \<Rightarrow> world \<Rightarrow> (error + retval) \<times> world" where
  "write_try (CreateUser userInfo) w = createUser_try userInfo w"
| "write_try (CreateShop shopInfo) w = createShop_try shopInfo w"
| "write_try (MakeSeller userID) w = makeSeller_try userID w"
| "write_try (CreateProduct productInfo) w = createProduct_try productInfo w"
| "write_try (CreateOrder createOrderInfo) w = createOrder_try createOrderInfo w"
| "write_try (SetProductQuantity shopid productid newQuantity) w =
     setProductQuantity_try shopid productid newQuantity w"
| "write_try (UpdateUserData newUserInfo) w = updateUserData_try newUserInfo w"

datatype read_call =
    GetAllShopsInfo
  | GetAllProductsOfAShop ident
  | GetShopInfo ident
  | CheckIfUserExists string
  | GetUserInfoByEmail string
  | GetUserInfoByID ident
  | GetUserByEmailAndPassword string string
  | GetShopsOwnedByUser ident
  | GetUsersOrders ident
  | GetProduct ident ident
  | GetProductsOfShopLike ident string
  | GetShopsLike string

text \<open>The world a read call leaves behind (its rows are dropped here).\<close>

fun after_read :: "read_call \<Rightarrow> world \<Rightarrow> world" where
  "after_read GetAllShopsInfo w = snd (getAllShopsInfo w)"
| "after_read (GetAllProductsOfAShop ShopID) w = snd (getAllProductsOfAShop ShopID w)"
| "after_read (GetShopInfo ShopID) w = snd (getShopInfo ShopID w)"
| "after_read (CheckIfUserExists email) w = snd (checkIfUserExists email w)"
| "after_read (GetUserInfoByEmail email) w = snd (getUserInfoByEmail email w)"
| "after_read (GetUserInfoByID userid) w = snd (getUserInfoByID userid w)"
| "after_read (GetUserByEmailAndPassword email password) w =
     snd (getUserByEmailAndPassword email password w)"
| "after_read (GetShopsOwnedByUser userid) w = snd (getShopsOwnedByUser userid w)"
| "after_read (GetUsersOrders userid) w = snd (getUsersOrders userid w)"
| "after_read (GetProduct shopid productid) w = snd (getProduct shopid productid w)"
| "after_read (GetProductsOfShopLike shopid searchStr) w =
     snd (getProductsOfShopLike shopid searchStr w)"
| "after_read (GetShopsLike searchStr) w = snd (getShopsLike searchStr w)"


subsection \<open>Notions used to state the properties\<close>

text \<open>The next query fails in the client.\<close>

definition next_fault :: "world \<Rightarrow> bool" where
  "next_fault w = (case faults w of [] \<Rightarrow> False | f # fs \<Rightarrow> f)"

text \<open>None of the next \<open>n\<close> queries fails in the client.\<close>

definition no_faults :: "nat \<Rightarrow> world \<Rightarrow> bool" where
  "no_faults n w = (True \<notin> set (take n (faults w)))"

text \<open>
  The statement sequence of a write operation as the specification describes it: BEGIN,
  an exclusive lock on the table for the two locking operations, the mutating statement,
  COMMIT. \<open>run_script\<close> sends a list of statements in order and stops at the first one
  that fails.
\<close>

fun lock_of :: "write_call \<Rightarrow> stmt list" where
  "lock_of (SetProductQuantity sh pr q) = [LockTable Products]"
| "lock_of (UpdateUserData i) = [LockTable Users]"
| "lock_of _ = []"

fun mutation :: "write_call \<Rightarrow> stmt" where
  "mutation (CreateUser i) =
     InsertUser (su_email i) (su_firstname i) (su_lastname i) (su_dob i) (su_password i)"
| "mutation (CreateShop i) = InsertShop (cs_shopname i) (cs_description i) (cs_ownerid i)"
| "mutation (MakeSeller k) = InsertSeller k"
| "mutation (CreateProduct i) =
     InsertProduct (cp_shopid i) (cp_price i) (cp_name i) (cp_quantity i) (cp_description i)"
| "mutation (CreateOrder i) =
     InsertOrder (co_userid i) (co_shopid i) (co_productid i) (co_quantity i)"
| "mutation (SetProductQuantity sh pr q) = UpdateProductQuantity q sh pr"
| "mutation (UpdateUserData i) =
     UpdateUser (u_userid i) (u_firstname i) (u_lastname i) (u_email i) (u_dob i)
       (u_password i) (u_userid i)"

definition script :: "write_call \<Rightarrow> stmt list" where
  "script c = Begin # lock_of c @ [mutation c, Commit]"

fun failure_message :: "write_call \<Rightarrow> string" where
  "failure_message (CreateUser i) = ''Failed to create user: ''"
| "failure_message (CreateShop i) = ''Failed to create shop: ''"
| "failure_message (MakeSeller k) = ''Failed to add user as a seller: ''"
| "failure_message (CreateProduct i) = ''Failed to create product: ''"
| "failure_message (CreateOrder i) = ''Failed to create new order: ''"
| "failure_message (SetProductQuantity sh pr q) = ''Failed to update product quantity: ''"
| "failure_message (UpdateUserData i) = ''Failed to update user info:''"

fun run_script :: "stmt list \<Rightarrow> world \<Rightarrow> (error + reply list) \<times> world" where
  "run_script [] w = (Inr [], w)"
| "run_script (st # sts) w =
     (case query st w of
        (Inl e, w1) \<Rightarrow> (Inl e, w1)
      | (Inr r, w1) \<Rightarrow>
          (case run_script sts w1 of
             (Inl e, w2) \<Rightarrow> (Inl e, w2)
           | (Inr rs, w2) \<Rightarrow> (Inr (r # rs), w2)))"

text \<open>The tables as committed: the snapshot while a transaction is open.\<close>

definition committed :: "world \<Rightarrow> tables" where
  "committed w = (case saved w of None \<Rightarrow> cur w | Some t \<Rightarrow> t)"

text \<open>
  The specification's search criterion: the name contains the search string, case being
  ignored.
\<close>

definition contains_ci :: "string \<Rightarrow> string \<Rightarrow> bool" where
  "contains_ci name S = sublist (lower S) (lower name)"

text \<open>A search string without the characters LIKE gives a meaning to.\<close>

definition wildcard_free :: "string \<Rightarrow> bool" where
  "wildcard_free S = (CHR ''%'' \<notin> set S \<and> CHR ''_'' \<notin> set S \<and> CHR 0x5C \<notin> set S)"

text \<open>The rows of the product identified by a shop and a product identifier.\<close>

definition product_at :: "ident \<Rightarrow> ident \<Rightarrow> tables \<Rightarrow> product_row list" where
  "product_at sh pr t = filter (\<lambda>r. p_shopid r = sh \<and> p_productid r = pr) (products t)"

text \<open>No product row has a negative quantity, in the tables or in an open snapshot.\<close>

definition quantities_ok :: "tables \<Rightarrow> bool" where
  "quantities_ok t = list_all (\<lambda>r. 0 \<le> p_quantity r) (products t)"

definition quantity_invariant :: "world \<Rightarrow> bool" where
  "quantity_invariant w =
     (quantities_ok (cur w) \<and> (case saved w of None \<Rightarrow> True | Some t \<Rightarrow> quantities_ok t))"

text \<open>The quantity a write call supplies, if it supplies one for a product.\<close>

fun supplied_quantity :: "write_call \<Rightarrow> int option" where
  "supplied_quantity (CreateProduct i) = Some (cp_quantity i)"
| "supplied_quantity (SetProductQuantity sh pr q) = Some q"
| "supplied_quantity _ = None"

subsection \<open>Example states\<close>

text \<open>
  One user, who is a seller and owns the shop Apple, which sells pears. The quantity
  columns have the type integer. The connection is outside a transaction and no client
  failure is scheduled.
\<close>

definition demo_tables :: tables where
  "demo_tables =
     \<lparr>products_quantity_type = Integer, orders_quantity_type = Integer,
      users = [\<lparr>u_userid = 1, u_email = ''ann@shop.org'', u_firstname = ''Ann'',
                u_lastname = ''Lee'', u_dob = ''1990-05-17'', u_password = ''secret''\<rparr>],
      shops = [\<lparr>s_shopid = 1, s_shopname = ''Apple'', s_establishdate = ''2023-11-02'',
                s_description = ''fruit'', s_ownerid = 1\<rparr>],
      sellers = [1],
      products = [\<lparr>p_productid = 1, p_shopid = 1, p_price = 5, p_name = ''Pear'',
                   p_quantity = 3, p_description = ''green''\<rparr>],
      orders = []\<rparr>"

definition demo_world :: world where
  "demo_world =
     \<lparr>cur = demo_tables, saved = None, today = ''2024-03-09'', now = ''2024-03-09 10:15:00'',
      faults = [], issued = [], console = []\<rparr>"

text \<open>The same state with another integer type for the quantity of a product.\<close>

definition typed_world :: "int_type \<Rightarrow> world" where
  "typed_world ty = demo_world\<lparr>cur := demo_tables\<lparr>products_quantity_type := ty\<rparr>\<rparr>"

text \<open>The same state with client failures scheduled for the next queries.\<close>

definition failing_world :: "bool list \<Rightarrow> world" where
  "failing_world fs = demo_world\<lparr>faults := fs\<rparr>"

text \<open>A signup with the email of the user already there, and one with a new email.\<close>

definition ann_again :: signup_info where
  "ann_again =
     \<lparr>su_email = ''ann@shop.org'', su_firstname = ''Anna'', su_lastname = ''Lee'',
      su_dob = ''1990-05-17'', su_password = ''other''\<rparr>"

definition bob :: signup_info where
  "bob =
     \<lparr>su_email = ''bob@shop.org'', su_firstname = ''Bob'', su_lastname = ''Ray'',
      su_dob = ''1985-01-30'', su_password = ''hunter2''\<rparr>"

text \<open>A shop for the user of the example state to open.\<close>

definition berry_shop :: create_shop_info where
  "berry_shop = \<lparr>cs_shopname = ''Berry'', cs_description = ''soft fruit'', cs_ownerid = 1\<rparr>"

text \<open>A product and an order for that shop, and new details for the user.\<close>

definition plum :: create_product_info where
  "plum =
     \<lparr>cp_shopid = 1, cp_price = 2, cp_name = ''Plum'', cp_quantity = 40,
      cp_description = ''ripe''\<rparr>"

definition pear_order :: create_order_info where
  "pear_order = \<lparr>co_userid = 1, co_shopid = 1, co_productid = 1, co_quantity = 2\<rparr>"

definition anne :: user_row where
  "anne =
     \<lparr>u_userid = 1, u_email = ''ann@shop.org'', u_firstname = ''Anne'', u_lastname = ''Lee'',
      u_dob = ''1990-05-17'', u_password = ''secret''\<rparr>"

section \<open>Properties\<close>

subsection \<open>The client and the engine\<close>

lemma engine_frame:
  "engine st w = (r, w') \<Longrightarrow>
     issued w' = issued w \<and> console w' = console w \<and> today w' = today w \<and> now w' = now w
     \<and> faults w' = faults w"
  by (auto simp: engine_def split: stmt.splits option.splits sum.splits prod.splits)

lemma engine_fail: "engine st w = (Inl e, w') \<Longrightarrow> w' = w"
  by (auto simp: engine_def split: stmt.splits option.splits sum.splits prod.splits)

text \<open>A query either fails in the client or is run by the engine.\<close>

lemma query_alt:
  "query st w =
     (if next_fault w
      then (Inl ConnectionError, w\<lparr>faults := tl (faults w), issued := issued w @ [st]\<rparr>)
      else engine st (w\<lparr>faults := tl (faults w), issued := issued w @ [st]\<rparr>))"
proof (cases "faults w")
  case Nil
  then have h: "w\<lparr>faults := []\<rparr> = w"
    by (cases w) simp
  show ?thesis by (simp add: query_def next_fault_def Nil h)
next
  case (Cons f fs)
  have h: "w\<lparr>issued := issued w @ [st], faults := fs\<rparr> = w\<lparr>faults := fs, issued := issued w @ [st]\<rparr>"
    by (cases w) simp
  show ?thesis by (simp add: query_def next_fault_def Cons h)
qed

lemma query_frame:
  "query st w = (r, w') \<Longrightarrow>
     issued w' = issued w @ [st] \<and> console w' = console w \<and> today w' = today w \<and> now w' = now w
     \<and> faults w' = tl (faults w)"
  by (auto simp: query_alt split: if_splits dest!: engine_frame)

lemma query_fail:
  "query st w = (Inl e, w') \<Longrightarrow> cur w' = cur w \<and> saved w' = saved w"
  by (auto simp: query_alt split: if_splits dest!: engine_fail)

subsection \<open>LIKE on a pattern without wildcards\<close>

lemma like_percent [simp]: "like_match ''%'' s"
  by (induction s) auto

lemma like_plain_prefix:
  "wildcard_free p \<Longrightarrow> like_match (p @ ''%'') s = prefix p s"
  by (induction p s rule: like_match.induct) (auto simp: wildcard_free_def)

lemma like_infix:
  "wildcard_free p \<Longrightarrow> like_match (CHR ''%'' # p @ ''%'') s = sublist p s"
proof (induction s)
  case Nil
  then show ?case using like_plain_prefix[of p "[]"] by simp
next
  case (Cons x s)
  then show ?case using like_plain_prefix[of p "x # s"]
    by (simp add: sublist_Cons_right)
qed

subsection \<open>Searching by name\<close>

lemma read_shops_like:
  "\<not> next_fault w \<Longrightarrow>
     fst (getShopsLike S w) =
       Inr (filter (\<lambda>r. like_match (CHR ''%'' # S @ ''%'') (lower (s_shopname r))) (shops (cur w)))"
  by (simp add: getShopsLike_def query_alt engine_def ShopInfoView_def)

lemma read_products_like:
  "\<not> next_fault w \<Longrightarrow>
     fst (getProductsOfShopLike sh S w) =
       Inr (filter (\<lambda>r. p_shopid r = sh \<and> like_match (CHR ''%'' # S @ ''%'') (lower (p_name r)))
             (products (cur w)))"
  by (simp add: getProductsOfShopLike_def query_alt engine_def ProductInfoView_def)

text \<open>
  Claim C4, as the code has it. When the query does not fail and the search string \<open>S\<close>
  has no upper-case letter and none of the characters \<open>%\<close>, \<open>_\<close> and backslash,
  getShopsLike returns exactly the shop rows whose name contains \<open>S\<close>, case being ignored,
  and getProductsOfShopLike exactly the rows of the shop's products whose name does.
\<close>

theorem search_plain:
  assumes "\<not> next_fault w" and "wildcard_free S" and "lower S = S"
  shows "fst (getShopsLike S w) =
           Inr (filter (\<lambda>r. contains_ci (s_shopname r) S) (shops (cur w)))
       \<and> fst (getProductsOfShopLike sh S w) =
           Inr (filter (\<lambda>r. p_shopid r = sh \<and> contains_ci (p_name r) S) (products (cur w)))"
  using assms by (simp add: read_shops_like read_products_like like_infix contains_ci_def)

theorem search_plain_witness:
  "\<not> next_fault demo_world \<and> wildcard_free ''pp'' \<and> lower ''pp'' = ''pp''
   \<and> fst (getShopsLike ''pp'' demo_world) =
       Inr (filter (\<lambda>r. contains_ci (s_shopname r) ''pp'') (shops (cur demo_world)))
   \<and> fst (getProductsOfShopLike 1 ''pp'' demo_world) =
       Inr (filter (\<lambda>r. p_shopid r = 1 \<and> contains_ci (p_name r) ''pp'')
             (products (cur demo_world)))"
proof -
  have h1: "\<not> next_fault demo_world"
    by (simp add: next_fault_def demo_world_def)
  have h2: "wildcard_free ''pp''"
    by (simp add: wildcard_free_def)
  have h3: "lower ''pp'' = ''pp''"
    by code_simp
  show ?thesis
    using h1 h2 h3 search_plain [OF h1 h2 h3, of 1] by blast
qed

text \<open>
  The claim as stated fails in both directions. The shop Apple contains the search string
  \<open>A\<close>, yet getShopsLike finds no shop: the name is lowered, the search string is not.
  And no product name contains the two characters \<open>_e\<close>, yet getProductsOfShopLike finds
  Pear: the underscore matches any character.
\<close>

theorem search_counterexample:
  "fst (getShopsLike ''A'' demo_world) = Inr []
   \<and> filter (\<lambda>r. contains_ci (s_shopname r) ''A'') (shops (cur demo_world)) \<noteq> []
   \<and> fst (getProductsOfShopLike 1 ''_e'' demo_world) = Inr (products (cur demo_world))
   \<and> products (cur demo_world) \<noteq> []
   \<and> filter (\<lambda>r. p_shopid r = 1 \<and> contains_ci (p_name r) ''_e'') (products (cur demo_world)) = []"
  by code_simp

subsection \<open>Logging in\<close>

text \<open>
  Claim C9. When the query does not fail, getUserByEmailAndPassword returns exactly the
  user rows whose stored email is the given email and whose stored password is the given
  password, compared as strings; the password is bound into the statement as it is given.
\<close>

theorem login_compares_plain_text:
  assumes "\<not> next_fault w"
  shows "fst (getUserByEmailAndPassword email password w) =
           Inr (filter (\<lambda>r. u_email r = email \<and> u_password r = password) (users (cur w)))
       \<and> issued (snd (getUserByEmailAndPassword email password w)) =
           issued w @ [SelectUserByEmailAndPassword email password]"
  using assms
  by (simp add: getUserByEmailAndPassword_def query_alt engine_def UserInfoView_def console_log_def)

theorem login_compares_plain_text_witness:
  "\<not> next_fault demo_world
   \<and> fst (getUserByEmailAndPassword ''ann@shop.org'' ''secret'' demo_world) =
       Inr (users (cur demo_world))
   \<and> fst (getUserByEmailAndPassword ''ann@shop.org'' ''Secret'' demo_world) = Inr []"
proof -
  have h: "\<not> next_fault demo_world"
    by (simp add: next_fault_def demo_world_def)
  show ?thesis
    using h login_compares_plain_text [OF h, of "''ann@shop.org''" "''secret''"]
      login_compares_plain_text [OF h, of "''ann@shop.org''" "''Secret''"]
    by (simp add: demo_world_def demo_tables_def)
qed

subsection \<open>Statement sequences\<close>

lemma run_script_Inr:
  "run_script (st # sts) w = (Inr rs, w2) \<Longrightarrow>
     \<exists>r rs' w1. query st w = (Inr r, w1) \<and> run_script sts w1 = (Inr rs', w2) \<and> rs = r # rs'"
  by (auto split: prod.splits sum.splits)

lemma run_script_Inl:
  "run_script (st # sts) w = (Inl e, w2) \<Longrightarrow>
     query st w = (Inl e, w2) \<or> (\<exists>r w1. query st w = (Inr r, w1) \<and> run_script sts w1 = (Inl e, w2))"
  by (auto split: prod.splits sum.splits)

lemma run_script_append:
  "run_script (xs @ ys) w =
     (case run_script xs w of
        (Inl e, w1) \<Rightarrow> (Inl e, w1)
      | (Inr rs, w1) \<Rightarrow>
          (case run_script ys w1 of
             (Inl e, w2) \<Rightarrow> (Inl e, w2)
           | (Inr rs', w2) \<Rightarrow> (Inr (rs @ rs'), w2)))"
  by (induction xs arbitrary: w) (auto split: prod.splits sum.splits)

lemma run_script_issued:
  "run_script sts w = (Inr rs, w1) \<Longrightarrow> issued w1 = issued w @ sts"
proof (induction sts arbitrary: w rs)
  case Nil
  then show ?case by simp
next
  case (Cons st sts)
  from run_script_Inr [OF Cons.prems] obtain r rs' w0 where
    q: "query st w = (Inr r, w0)" and rest: "run_script sts w0 = (Inr rs', w1)"
    by blast
  from query_frame [OF q] Cons.IH [OF rest] show ?case by simp
qed

lemma run_script_frame:
  "run_script sts w = (r, w1) \<Longrightarrow>
     console w1 = console w \<and> today w1 = today w \<and> now w1 = now w"
proof (induction sts arbitrary: w r w1)
  case Nil
  then show ?case by simp
next
  case (Cons st sts)
  obtain r0 w0 where q: "query st w = (r0, w0)" by (cases "query st w")
  note f = query_frame [OF q]
  show ?case
  proof (cases r0)
    case (Inl e)
    with q Cons.prems f show ?thesis by simp
  next
    case (Inr rp)
    obtain r' w' where rest: "run_script sts w0 = (r', w')" by (cases "run_script sts w0")
    with q Inr Cons.prems have "w1 = w'" by (cases r') auto
    with Cons.IH [OF rest] f show ?thesis by simp
  qed
qed

lemma query_Begin:
  "query Begin w = (r, w1) \<Longrightarrow>
     cur w1 = cur w \<and>
     (case r of Inl e \<Rightarrow> saved w1 = saved w | Inr rp \<Rightarrow> saved w1 = Some (committed w))"
  by (auto simp: query_alt engine_def committed_def split: if_splits option.splits)

lemma query_Commit:
  "query Commit w = (r, w1) \<Longrightarrow>
     cur w1 = cur w \<and> (case r of Inl e \<Rightarrow> saved w1 = saved w | Inr rp \<Rightarrow> saved w1 = None)"
  by (auto simp: query_alt engine_def split: if_splits)

lemma query_Rollback:
  "query Rollback w = (r, w1) \<Longrightarrow>
     r = (if next_fault w then Inl ConnectionError else Inr (Written [] 0)) \<and>
     cur w1 = (if next_fault w then cur w else committed w) \<and>
     saved w1 = (if next_fault w then saved w else None)"
  by (auto simp: query_alt engine_def committed_def split: if_splits option.splits)

lemma query_mutation:
  "query (mutation c) w = (r, w1) \<Longrightarrow>
     saved w1 = saved w \<and>
     (case r of
        Inl e \<Rightarrow> cur w1 = cur w
      | Inr rp \<Rightarrow> run_stmt (today w) (now w) (mutation c) (cur w) = Inr (rp, cur w1))"
  by (cases c)
    (auto simp: query_alt engine_def simp del: run_stmt.simps split: if_splits sum.splits prod.splits)

lemma lock_frame:
  "run_script (lock_of c) w = (r, w1) \<Longrightarrow> cur w1 = cur w \<and> saved w1 = saved w"
  by (cases c) (auto simp: query_alt engine_def split: if_splits)

lemmas write_defs =
  createUser_def createShop_def makeSeller_def createProduct_def createOrder_def
  setProductQuantity_def updateUserData_def

lemmas try_defs =
  createUser_try_def createShop_try_def makeSeller_try_def createProduct_try_def
  createOrder_try_def setProductQuantity_try_def updateUserData_try_def

lemma call_write_try: "call_write c w = try_catch (write_try c) (failure_message c) w"
  by (cases c) (simp_all add: write_defs try_catch_def)

lemma write_try_fails:
  "run_script (script c) w = (Inl e, w1) \<Longrightarrow> write_try c w = (Inl e, w1)"
  by (cases c) (auto simp: script_def try_defs split: prod.splits sum.splits)

lemma write_try_succeeds:
  "run_script (script c) w = (Inr rs, w1) \<Longrightarrow> \<exists>v. write_try c w = (Inr v, console_log w1)"
  by (cases c) (auto simp: script_def try_defs split: prod.splits sum.splits)

lemma call_write_fails:
  "run_script (script c) w = (Inl e, w1) \<Longrightarrow>
     call_write c w = catch_block (failure_message c) e w1"
  by (simp add: call_write_try try_catch_def write_try_fails)

lemma call_write_succeeds:
  "run_script (script c) w = (Inr rs, w1) \<Longrightarrow>
     \<exists>v. call_write c w = (Inr (Some v), console_log w1)"
  using write_try_succeeds [of c w rs w1] by (auto simp: call_write_try try_catch_def)

lemma catch_block_effect:
  "catch_block msg e w = (r, w1) \<Longrightarrow>
     issued w1 = issued w @ [Rollback] \<and>
     console w1 = console w @ [Failure msg e] \<and>
     r = (if next_fault w then Inl ConnectionError else Inr None) \<and>
     cur w1 = (if next_fault w then cur w else committed w) \<and>
     saved w1 = (if next_fault w then saved w else None)"
  by (auto simp: catch_block_def console_error_def query_alt engine_def committed_def next_fault_def
      split: if_splits option.splits)

lemma call_write_returned:
  assumes "fst (call_write c w) = Inr (Some v)"
  shows "\<exists>rs w1. run_script (script c) w = (Inr rs, w1) \<and> snd (call_write c w) = console_log w1"
proof -
  obtain r w1 where rs: "run_script (script c) w = (r, w1)" by (cases "run_script (script c) w")
  show ?thesis
  proof (cases r)
    case (Inl e)
    with rs have cw: "call_write c w = catch_block (failure_message c) e w1"
      by (simp add: call_write_fails)
    obtain r' w' where cb: "catch_block (failure_message c) e w1 = (r', w')"
      by (cases "catch_block (failure_message c) e w1")
    from catch_block_effect [OF cb] cw cb assms show ?thesis by (auto split: if_splits)
  next
    case (Inr rp)
    with rs call_write_succeeds [of c w rp w1] show ?thesis by auto
  qed
qed

lemma script_success:
  assumes "run_script (script c) w = (Inr rs, w1)"
  shows "saved w1 = None \<and>
         (\<exists>rp. run_stmt (today w) (now w) (mutation c) (cur w) = Inr (rp, cur w1))"
proof -
  from assms obtain r0 rs0 w0 where
    b: "query Begin w = (Inr r0, w0)" and
    rest: "run_script (lock_of c @ [mutation c, Commit]) w0 = (Inr rs0, w1)"
    unfolding script_def by (blast dest: run_script_Inr)
  obtain rl wl where l: "run_script (lock_of c) w0 = (rl, wl)"
    by (cases "run_script (lock_of c) w0")
  with rest obtain rs1 where tail: "run_script [mutation c, Commit] wl = (Inr rs1, w1)"
    by (auto simp: run_script_append simp del: run_script.simps split: sum.splits prod.splits)
  then obtain rp wm rc where
    m: "query (mutation c) wl = (Inr rp, wm)" and cm: "query Commit wm = (Inr rc, w1)"
    by (auto split: sum.splits prod.splits)
  from query_frame [OF b] run_script_frame [OF l] have clock: "today wl = today w" "now wl = now w"
    by simp_all
  from query_Begin [OF b] lock_frame [OF l] have "cur wl = cur w" by simp
  with query_mutation [OF m] clock query_Commit [OF cm] show ?thesis by simp
qed

lemma script_failure:
  assumes "run_script (script c) w = (Inl e, w1)"
  shows "committed w1 = committed w \<and>
         (cur w1 = cur w \<or>
          saved w1 = Some (committed w) \<and>
          (\<exists>rp. run_stmt (today w) (now w) (mutation c) (cur w) = Inr (rp, cur w1)))"
proof -
  obtain rb w0 where b: "query Begin w = (rb, w0)" by (cases "query Begin w")
  show ?thesis
  proof (cases rb)
    case (Inl e0)
    with b assms have "w1 = w0" by (simp add: script_def)
    with query_Begin [OF b] Inl show ?thesis by (simp add: committed_def split: option.splits)
  next
    case (Inr r0)
    with query_Begin [OF b] have s0: "cur w0 = cur w" "saved w0 = Some (committed w)" by simp_all
    from b Inr assms have rest: "run_script (lock_of c @ [mutation c, Commit]) w0 = (Inl e, w1)"
      by (simp add: script_def split: sum.splits prod.splits)
    obtain rl wl where l: "run_script (lock_of c) w0 = (rl, wl)"
      by (cases "run_script (lock_of c) w0")
    from lock_frame [OF l] s0 have sl: "cur wl = cur w" "saved wl = Some (committed w)" by simp_all
    from query_frame [OF b] run_script_frame [OF l] have clock: "today wl = today w" "now wl = now w"
      by simp_all
    show ?thesis
    proof (cases rl)
      case (Inl el)
      with l rest have "w1 = wl" by (simp add: run_script_append)
      with sl show ?thesis by (simp add: committed_def)
    next
      case (Inr rsl)
      with l rest have tail: "run_script [mutation c, Commit] wl = (Inl e, w1)"
        by (auto simp: run_script_append simp del: run_script.simps split: sum.splits prod.splits)
      obtain rm wm where m: "query (mutation c) wl = (rm, wm)" by (cases "query (mutation c) wl")
      show ?thesis
      proof (cases rm)
        case (Inl em)
        with m tail have "w1 = wm" by simp
        with query_mutation [OF m] Inl sl show ?thesis by (simp add: committed_def)
      next
        case (Inr rp)
        with query_mutation [OF m] sl clock have
          sm: "saved wm = Some (committed w)"
              "run_stmt (today w) (now w) (mutation c) (cur w) = Inr (rp, cur wm)"
          by simp_all
        obtain rc wc where cm: "query Commit wm = (rc, wc)" by (cases "query Commit wm")
        with m Inr tail have "w1 = wc" "\<exists>ec. rc = Inl ec"
          by (auto split: sum.splits)
        with query_Commit [OF cm] sm show ?thesis by (auto simp: committed_def)
      qed
    qed
  qed
qed

subsection \<open>A write whose transaction fails\<close>

text \<open>
  Claim C1, as the code has it. Let a statement of the BEGIN, lock, statement, COMMIT
  sequence of a write operation fail with the error \<open>e\<close>. Then the operation prints the
  error with its message and sends ROLLBACK as its last statement. When the ROLLBACK
  succeeds, the operation returns \<open>undefined\<close>, whatever the error was; when the ROLLBACK
  fails as well, its error is not caught and the promise is rejected with it.
\<close>

theorem failed_write_rolls_back:
  assumes "fst (run_script (script c) w) = Inl e"
  shows "issued (snd (call_write c w)) = issued (snd (run_script (script c) w)) @ [Rollback]
       \<and> console (snd (call_write c w)) = console w @ [Failure (failure_message c) e]
       \<and> fst (call_write c w) =
           (if next_fault (snd (run_script (script c) w)) then Inl ConnectionError else Inr None)"
proof -
  obtain w1 where rs: "run_script (script c) w = (Inl e, w1)"
    using assms by (cases "run_script (script c) w") simp
  obtain r w' where cb: "catch_block (failure_message c) e w1 = (r, w')"
    by (cases "catch_block (failure_message c) e w1")
  from call_write_fails [OF rs] cb have cw: "call_write c w = (r, w')" by simp
  from catch_block_effect [OF cb] run_script_frame [OF rs] cw rs show ?thesis by simp
qed

theorem failed_write_rolls_back_witness:
  "fst (run_script (script (CreateUser ann_again)) demo_world) = Inl UniqueViolation
   \<and> issued (snd (createUser ann_again demo_world)) =
       [Begin,
        InsertUser ''ann@shop.org'' ''Anna'' ''Lee'' ''1990-05-17'' ''other'',
        Rollback]
   \<and> console (snd (createUser ann_again demo_world)) =
       [Failure ''Failed to create user: '' UniqueViolation]
   \<and> fst (createUser ann_again demo_world) = Inr None"
proof -
  have h: "fst (run_script (script (CreateUser ann_again)) demo_world) = Inl UniqueViolation"
    by code_simp
  have i: "issued (snd (run_script (script (CreateUser ann_again)) demo_world)) =
             [Begin, InsertUser ''ann@shop.org'' ''Anna'' ''Lee'' ''1990-05-17'' ''other'']"
    by code_simp
  have n: "\<not> next_fault (snd (run_script (script (CreateUser ann_again)) demo_world))"
    by code_simp
  have c: "console demo_world = []"
    by (simp add: demo_world_def)
  show ?thesis
    using h i n c failed_write_rolls_back [OF h] by simp
qed

text \<open>
  The claim as stated promises \<open>undefined\<close> after every failure. With the connection down,
  BEGIN fails, the ROLLBACK of the \<open>catch\<close> block fails too, and makeSeller rejects.
  Likewise when the INSERT of createUser violates the uniqueness of emails and the
  ROLLBACK then fails.
\<close>

theorem failed_write_counterexample:
  "fst (run_script (script (MakeSeller 1)) (failing_world [True, True])) = Inl ConnectionError
   \<and> fst (makeSeller 1 (failing_world [True, True])) = Inl ConnectionError
   \<and> fst (run_script (script (CreateUser ann_again)) (failing_world [False, False, True])) =
       Inl UniqueViolation
   \<and> fst (createUser ann_again (failing_world [False, False, True])) = Inl ConnectionError"
  by code_simp


lemmas read_defs =
  getAllShopsInfo_def getAllProductsOfAShop_def getShopInfo_def checkIfUserExists_def
  getUserInfoByEmail_def getUserInfoByID_def getUserByEmailAndPassword_def
  getShopsOwnedByUser_def getUsersOrders_def getProduct_def getProductsOfShopLike_def
  getShopsLike_def






subsection \<open>Operations as statement sequences\<close>

lemma write_issued:
  assumes "fst (call_write c w) = Inr (Some v)"
  shows "issued (snd (call_write c w)) = issued w @ script c"
proof -
  from call_write_returned [OF assms] obtain rs w1 where
    rs: "run_script (script c) w = (Inr rs, w1)" and w': "snd (call_write c w) = console_log w1"
    by blast
  from run_script_issued [OF rs] w' show ?thesis by (simp add: console_log_def)
qed

lemma write_result:
  assumes "fst (call_write c w) = Inr (Some v)"
  shows "saved (snd (call_write c w)) = None \<and>
         (\<exists>rp. run_stmt (today w) (now w) (mutation c) (cur w) = Inr (rp, cur (snd (call_write c w))))"
proof -
  from call_write_returned [OF assms] obtain rs w1 where
    rs: "run_script (script c) w = (Inr rs, w1)" and w': "snd (call_write c w) = console_log w1"
    by blast
  from script_success [OF rs] w' show ?thesis by (simp add: console_log_def)
qed

lemma query_issued: "issued (snd (query st w)) = issued w @ [st]"
  using query_frame [of st w "fst (query st w)" "snd (query st w)"] by simp

lemma read_issued:
  "issued (snd (getAllShopsInfo w)) = issued w @ [SelectAllShops]"
  "issued (snd (getAllProductsOfAShop ShopID w)) = issued w @ [SelectProductsOfShop ShopID]"
  "issued (snd (getShopInfo ShopID w)) = issued w @ [SelectShop ShopID]"
  "issued (snd (checkIfUserExists email w)) = issued w @ [SelectUserExists email]"
  "issued (snd (getUserInfoByEmail email w)) = issued w @ [SelectUserByEmail email]"
  "issued (snd (getUserInfoByID userid w)) = issued w @ [SelectUserByID userid]"
  "issued (snd (getUserByEmailAndPassword email password w)) =
     issued w @ [SelectUserByEmailAndPassword email password]"
  "issued (snd (getShopsOwnedByUser userid w)) = issued w @ [SelectShopsOwnedBy userid]"
  "issued (snd (getUsersOrders userid w)) = issued w @ [SelectOrdersOfBuyer userid]"
  "issued (snd (getProduct shopid productid w)) = issued w @ [SelectProduct shopid productid]"
  "issued (snd (getProductsOfShopLike shopid searchStr w)) =
     issued w @ [SelectProductsOfShopLike shopid (''%'' @ searchStr @ ''%'')]"
  "issued (snd (getShopsLike searchStr w)) = issued w @ [SelectShopsLike (''%'' @ searchStr @ ''%'')]"
  using query_issued
  by (auto simp: read_defs console_log_def split: prod.splits sum.splits list.splits
      dest!: query_frame)

subsection \<open>The statements an operation sends\<close>

text \<open>
  Claim C7. A write operation that returns a result has sent, in this order and nothing
  else: BEGIN; for setProductQuantity and updateUserData, one exclusive lock on the table
  written; its one mutating statement, with the caller's values bound; COMMIT. (After
  BEGIN that is a transaction of two statements, or of three with the lock.) A read
  operation sends its one SELECT, whether the query fails or not.
\<close>

theorem write_statement_sequence:
  "(fst (createUser userInfo w) = Inr (Some v) \<longrightarrow>
      issued (snd (createUser userInfo w)) = issued w @
        [Begin,
         InsertUser (su_email userInfo) (su_firstname userInfo) (su_lastname userInfo)
           (su_dob userInfo) (su_password userInfo),
         Commit])
   \<and> (fst (createShop shopInfo w) = Inr (Some v) \<longrightarrow>
      issued (snd (createShop shopInfo w)) = issued w @
        [Begin,
         InsertShop (cs_shopname shopInfo) (cs_description shopInfo) (cs_ownerid shopInfo),
         Commit])
   \<and> (fst (makeSeller userID w) = Inr (Some v) \<longrightarrow>
      issued (snd (makeSeller userID w)) = issued w @ [Begin, InsertSeller userID, Commit])
   \<and> (fst (createProduct productInfo w) = Inr (Some v) \<longrightarrow>
      issued (snd (createProduct productInfo w)) = issued w @
        [Begin,
         InsertProduct (cp_shopid productInfo) (cp_price productInfo) (cp_name productInfo)
           (cp_quantity productInfo) (cp_description productInfo),
         Commit])
   \<and> (fst (createOrder createOrderInfo w) = Inr (Some v) \<longrightarrow>
      issued (snd (createOrder createOrderInfo w)) = issued w @
        [Begin,
         InsertOrder (co_userid createOrderInfo) (co_shopid createOrderInfo)
           (co_productid createOrderInfo) (co_quantity createOrderInfo),
         Commit])
   \<and> (fst (setProductQuantity shopid productid newQuantity w) = Inr (Some v) \<longrightarrow>
      issued (snd (setProductQuantity shopid productid newQuantity w)) = issued w @
        [Begin, LockTable Products, UpdateProductQuantity newQuantity shopid productid, Commit])
   \<and> (fst (updateUserData newUserInfo w) = Inr (Some v) \<longrightarrow>
      issued (snd (updateUserData newUserInfo w)) = issued w @
        [Begin, LockTable Users,
         UpdateUser (u_userid newUserInfo) (u_firstname newUserInfo) (u_lastname newUserInfo)
           (u_email newUserInfo) (u_dob newUserInfo) (u_password newUserInfo)
           (u_userid newUserInfo),
         Commit])
   \<and> issued (snd (getAllShopsInfo w)) = issued w @ [SelectAllShops]
   \<and> issued (snd (getAllProductsOfAShop ShopID w)) = issued w @ [SelectProductsOfShop ShopID]
   \<and> issued (snd (getShopInfo ShopID w)) = issued w @ [SelectShop ShopID]
   \<and> issued (snd (checkIfUserExists email w)) = issued w @ [SelectUserExists email]
   \<and> issued (snd (getUserInfoByEmail email w)) = issued w @ [SelectUserByEmail email]
   \<and> issued (snd (getUserInfoByID userid w)) = issued w @ [SelectUserByID userid]
   \<and> issued (snd (getUserByEmailAndPassword email password w)) =
       issued w @ [SelectUserByEmailAndPassword email password]
   \<and> issued (snd (getShopsOwnedByUser userid w)) = issued w @ [SelectShopsOwnedBy userid]
   \<and> issued (snd (getUsersOrders userid w)) = issued w @ [SelectOrdersOfBuyer userid]
   \<and> issued (snd (getProduct shopid productid w)) = issued w @ [SelectProduct shopid productid]
   \<and> issued (snd (getProductsOfShopLike shopid searchStr w)) =
       issued w @ [SelectProductsOfShopLike shopid (''%'' @ searchStr @ ''%'')]
   \<and> issued (snd (getShopsLike searchStr w)) =
       issued w @ [SelectShopsLike (''%'' @ searchStr @ ''%'')]"
  using write_issued [of "CreateUser userInfo" w v]
    write_issued [of "CreateShop shopInfo" w v]
    write_issued [of "MakeSeller userID" w v]
    write_issued [of "CreateProduct productInfo" w v]
    write_issued [of "CreateOrder createOrderInfo" w v]
    write_issued [of "SetProductQuantity shopid productid newQuantity" w v]
    write_issued [of "UpdateUserData newUserInfo" w v]
  by (simp add: script_def read_issued)

theorem write_statement_sequence_witness:
  "fst (createUser bob demo_world) = Inr (Some (Metadata 1))
   \<and> issued (snd (createUser bob demo_world)) =
       [Begin, InsertUser ''bob@shop.org'' ''Bob'' ''Ray'' ''1985-01-30'' ''hunter2'', Commit]
   \<and> fst (createShop berry_shop demo_world) = Inr (Some (Results []))
   \<and> issued (snd (createShop berry_shop demo_world)) =
       [Begin, InsertShop ''Berry'' ''soft fruit'' 1, Commit]
   \<and> fst (makeSeller 1 demo_world) = Inr (Some (Results []))
   \<and> issued (snd (makeSeller 1 demo_world)) = [Begin, InsertSeller 1, Commit]
   \<and> fst (createProduct plum demo_world) = Inr (Some (Results []))
   \<and> issued (snd (createProduct plum demo_world)) =
       [Begin, InsertProduct 1 2 ''Plum'' 40 ''ripe'', Commit]
   \<and> fst (createOrder pear_order demo_world) = Inr (Some (Results []))
   \<and> issued (snd (createOrder pear_order demo_world)) = [Begin, InsertOrder 1 1 1 2, Commit]
   \<and> fst (setProductQuantity 1 1 7 demo_world) = Inr (Some (Results []))
   \<and> issued (snd (setProductQuantity 1 1 7 demo_world)) =
       [Begin, LockTable Products, UpdateProductQuantity 7 1 1, Commit]
   \<and> fst (updateUserData anne demo_world) = Inr (Some (Results []))
   \<and> issued (snd (updateUserData anne demo_world)) =
       [Begin, LockTable Users,
        UpdateUser 1 ''Anne'' ''Lee'' ''ann@shop.org'' ''1990-05-17'' ''secret'' 1, Commit]"
proof -
  have h1: "fst (createUser bob demo_world) = Inr (Some (Metadata 1))"
    by code_simp
  have h2: "fst (createShop berry_shop demo_world) = Inr (Some (Results []))"
    by code_simp
  have h3: "fst (makeSeller 1 demo_world) = Inr (Some (Results []))"
    by code_simp
  have h4: "fst (createProduct plum demo_world) = Inr (Some (Results []))"
    by code_simp
  have h5: "fst (createOrder pear_order demo_world) = Inr (Some (Results []))"
    by code_simp
  have h6: "fst (setProductQuantity 1 1 7 demo_world) = Inr (Some (Results []))"
    by code_simp
  have h7: "fst (updateUserData anne demo_world) = Inr (Some (Results []))"
    by code_simp
  have i: "issued demo_world = []"
    by (simp add: demo_world_def)
  show ?thesis
    using h1 h2 h3 h4 h5 h6 h7 i
      write_statement_sequence [where userInfo = bob and w = demo_world and v = "Metadata 1"]
      write_statement_sequence [where shopInfo = berry_shop and userID = 1
        and productInfo = plum and createOrderInfo = pear_order
        and shopid = 1 and productid = 1 and newQuantity = 7 and newUserInfo = anne
        and w = demo_world and v = "Results []"]
    by (simp add: bob_def berry_shop_def plum_def pear_order_def anne_def)
qed

subsection \<open>The tables after a write\<close>

lemma write_outcome:
  "(cur (snd (call_write c w)) = cur w \<or> cur (snd (call_write c w)) = committed w \<or>
      (\<exists>rp. run_stmt (today w) (now w) (mutation c) (cur w) = Inr (rp, cur (snd (call_write c w)))))
   \<and> (committed (snd (call_write c w)) = committed w \<or>
      (\<exists>rp. run_stmt (today w) (now w) (mutation c) (cur w) =
              Inr (rp, committed (snd (call_write c w)))))"
proof -
  obtain r w1 where rs: "run_script (script c) w = (r, w1)" by (cases "run_script (script c) w")
  show ?thesis
  proof (cases r)
    case (Inl e)
    with rs have f: "run_script (script c) w = (Inl e, w1)" by simp
    obtain r' w' where cb: "catch_block (failure_message c) e w1 = (r', w')"
      by (cases "catch_block (failure_message c) e w1")
    from call_write_fails [OF f] cb have cw: "call_write c w = (r', w')" by simp
    from catch_block_effect [OF cb] have c1: "committed w' = committed w1"
      by (auto simp: committed_def split: if_splits option.splits)
    from catch_block_effect [OF cb] have c2: "cur w' = cur w1 \<or> cur w' = committed w1"
      by (auto split: if_splits)
    from c1 c2 script_failure [OF f] cw show ?thesis
      by auto
  next
    case (Inr rp)
    with rs have s: "run_script (script c) w = (Inr rp, w1)" by simp
    from call_write_succeeds [OF s] obtain v where
      cw: "call_write c w = (Inr (Some v), console_log w1)" by blast
    from script_success [OF s] have "committed (console_log w1) = cur w1" "cur (console_log w1) = cur w1"
      by (simp_all add: committed_def console_log_def)
    with script_success [OF s] cw show ?thesis
      by auto
  qed
qed

lemma quantity_invariant_alt:
  "quantity_invariant w = (quantities_ok (cur w) \<and> quantities_ok (committed w))"
  by (auto simp: quantity_invariant_def committed_def split: option.splits)

lemma run_stmt_quantities:
  assumes "quantities_ok t"
    and "case supplied_quantity c of None \<Rightarrow> True | Some q \<Rightarrow> 0 \<le> q"
    and "run_stmt d ts (mutation c) t = Inr (rp, t')"
  shows "quantities_ok t'"
  using assms
  by (cases c) (auto simp: quantities_ok_def list_all_iff Let_def split: if_splits)

lemma read_tables: "cur (after_read rc w) = cur w \<and> saved (after_read rc w) = saved w"
  by (cases rc)
    (auto simp: read_defs query_alt engine_def console_log_def split: list.splits)

subsection \<open>Product quantities\<close>

text \<open>
  Claim C8, as the code has it. No operation checks a quantity, and createProduct and
  setProductQuantity store the quantity the caller supplies. So the invariant that no
  product row has a negative quantity is preserved by these two when the supplied
  quantity is not negative, and by every other operation of the module always.
\<close>

theorem quantities_stay_nonnegative:
  assumes "quantity_invariant w"
  shows "((case supplied_quantity c of None \<Rightarrow> True | Some q \<Rightarrow> 0 \<le> q) \<longrightarrow>
            quantity_invariant (snd (call_write c w)))
       \<and> quantity_invariant (after_read rc w)"
proof -
  from assms read_tables [of rc w] have "quantity_invariant (after_read rc w)"
    by (simp add: quantity_invariant_def)
  moreover have "quantity_invariant (snd (call_write c w))"
    if q: "case supplied_quantity c of None \<Rightarrow> True | Some q \<Rightarrow> 0 \<le> q"
    using assms write_outcome [of c w] run_stmt_quantities [OF _ q]
    unfolding quantity_invariant_alt by metis
  ultimately show ?thesis by blast
qed

theorem quantities_stay_nonnegative_witness:
  "quantity_invariant demo_world
   \<and> (case supplied_quantity (SetProductQuantity 1 1 7) of None \<Rightarrow> True | Some q \<Rightarrow> 0 \<le> q)
   \<and> quantity_invariant (snd (setProductQuantity 1 1 7 demo_world))
   \<and> quantity_invariant (snd (getProduct 1 1 demo_world))"
proof -
  have h: "quantity_invariant demo_world"
    by code_simp
  show ?thesis
    using h quantities_stay_nonnegative [OF h, of "SetProductQuantity 1 1 7" "GetProduct 1 1"]
    by simp
qed

text \<open>
  The claim as stated fails for a negative quantity: from a state where the invariant
  holds, createProduct with quantity \<open>-1\<close> and setProductQuantity with \<open>-4\<close> each leave a
  product row with a negative quantity.
\<close>

theorem quantities_counterexample:
  "quantity_invariant demo_world
   \<and> \<not> quantity_invariant
        (snd (createProduct
               \<lparr>cp_shopid = 1, cp_price = 2, cp_name = ''Plum'', cp_quantity = - 1,
                cp_description = ''ripe''\<rparr> demo_world))
   \<and> \<not> quantity_invariant (snd (setProductQuantity 1 1 (- 4) demo_world))"
  by code_simp

subsection \<open>Updating a user\<close>

text \<open>
  Claim C10. updateUserData, started outside a transaction, leaves the userid of every
  Users row as it was, whatever the input and whether or not its statements fail: the
  UPDATE writes \<open>newUserInfo.userid\<close> into the userid of the rows that have that userid.
\<close>

theorem update_keeps_userids:
  assumes "saved w = None"
  shows "map u_userid (users (cur (snd (updateUserData newUserInfo w)))) =
           map u_userid (users (cur w))"
proof -
  have k: "map u_userid (users t') = map u_userid (users (cur w))"
    if "run_stmt (today w) (now w) (mutation (UpdateUserData newUserInfo)) (cur w) = Inr (rp, t')"
    for rp t'
    using that by (auto simp: Let_def split: if_splits)
  from assms have "committed w = cur w" by (simp add: committed_def)
  with write_outcome [of "UpdateUserData newUserInfo" w] k show ?thesis
    by auto
qed

theorem update_keeps_userids_witness:
  "saved demo_world = None
   \<and> map u_userid (users (cur (snd (updateUserData anne demo_world)))) = [1]
   \<and> map u_firstname (users (cur (snd (updateUserData anne demo_world)))) = [''Anne'']"
proof -
  have h: "saved demo_world = None"
    by (simp add: demo_world_def)
  have f: "map u_firstname (users (cur (snd (updateUserData anne demo_world)))) = [''Anne'']"
    by code_simp
  show ?thesis
    using h f update_keeps_userids [OF h]
    by (simp add: demo_world_def demo_tables_def)
qed

subsection \<open>A write when nothing fails\<close>

lemma no_faults_Suc:
  "no_faults (Suc n) w \<Longrightarrow> query st w = (r, w1) \<Longrightarrow> \<not> next_fault w \<and> no_faults n w1"
  by (drule query_frame) (cases "faults w", auto simp: no_faults_def next_fault_def)

lemma query_control_ok:
  "\<not> next_fault w \<Longrightarrow> st = Begin \<or> st = Commit \<or> (\<exists>n. st = LockTable n) \<Longrightarrow>
     \<exists>r. fst (query st w) = Inr r"
  by (auto simp: query_alt engine_def)

lemma query_mutation_ok:
  "\<not> next_fault w \<Longrightarrow> run_stmt (today w) (now w) (mutation c) (cur w) = Inr (rp, t') \<Longrightarrow>
     fst (query (mutation c) w) = Inr rp"
  by (cases c) (auto simp: query_alt engine_def simp del: run_stmt.simps)

lemma lock_runs:
  assumes "no_faults (length (lock_of c) + n) w"
  shows "\<exists>rs w1. run_script (lock_of c) w = (Inr rs, w1) \<and> no_faults n w1"
proof (cases "lock_of c")
  case Nil
  with assms show ?thesis by simp
next
  case (Cons st sts)
  then have l: "lock_of c = [st]"
    by (cases c) auto
  from Cons have k: "\<exists>n. st = LockTable n"
    by (cases c) auto
  from assms l have nf: "no_faults (Suc n) w" by simp
  obtain r w1 where q: "query st w = (r, w1)" by (cases "query st w")
  from no_faults_Suc [OF nf q] query_control_ok [of w st] k q l show ?thesis
    by auto
qed

lemma script_runs:
  assumes nf: "no_faults (length (script c) + n) w"
    and ok: "run_stmt (today w) (now w) (mutation c) (cur w) = Inr (rp, t')"
  shows "\<exists>rs w1. run_script (script c) w = (Inr rs, w1) \<and> no_faults n w1 \<and> cur w1 = t'"
proof -
  from nf have nf0: "no_faults (Suc (length (lock_of c) + Suc (Suc n))) w"
    by (simp add: script_def)
  obtain r0 w0 where b: "query Begin w = (r0, w0)" by (cases "query Begin w")
  from no_faults_Suc [OF nf0 b] query_control_ok [of w Begin] b obtain rb where
    b': "query Begin w = (Inr rb, w0)" and nf1: "no_faults (length (lock_of c) + Suc (Suc n)) w0"
    by auto
  from lock_runs [OF nf1] obtain rsl wl where
    l: "run_script (lock_of c) w0 = (Inr rsl, wl)" and nf2: "no_faults (Suc (Suc n)) wl"
    by blast
  from query_Begin [OF b'] lock_frame [OF l] query_frame [OF b'] run_script_frame [OF l]
  have same: "cur wl = cur w" "today wl = today w" "now wl = now w" by simp_all
  obtain rm wm where m: "query (mutation c) wl = (rm, wm)" by (cases "query (mutation c) wl")
  from no_faults_Suc [OF nf2 m] query_mutation_ok [of wl c rp t'] ok same m have
    m': "query (mutation c) wl = (Inr rp, wm)" and nf3: "no_faults (Suc n) wm"
    by auto
  obtain rc wc where cm: "query Commit wm = (rc, wc)" by (cases "query Commit wm")
  from no_faults_Suc [OF nf3 cm] query_control_ok [of wm Commit] cm obtain rc' where
    cm': "query Commit wm = (Inr rc', wc)" and nf4: "no_faults n wc"
    by auto
  from m' cm' have t: "run_script [mutation c, Commit] wl = (Inr [rp, rc'], wc)"
    by simp
  have "run_script (lock_of c @ [mutation c, Commit]) w0 = (Inr (rsl @ [rp, rc']), wc)"
    unfolding run_script_append l by (simp add: t del: run_script.simps)
  with b' have rs: "run_script (script c) w = (Inr (rb # rsl @ [rp, rc']), wc)"
    by (simp add: script_def)
  from script_success [OF rs] ok have "cur wc = t'" by simp
  with rs nf4 show ?thesis by blast
qed

lemma write_runs:
  assumes nf: "no_faults (length (script c) + n) w"
    and ok: "run_stmt (today w) (now w) (mutation c) (cur w) = Inr (rp, t')"
  shows "(\<exists>v. fst (call_write c w) = Inr (Some v)) \<and> cur (snd (call_write c w)) = t'
       \<and> no_faults n (snd (call_write c w))"
proof -
  from script_runs [OF nf ok] obtain rs w1 where
    rs: "run_script (script c) w = (Inr rs, w1)" and p: "no_faults n w1" "cur w1 = t'"
    by blast
  from call_write_succeeds [OF rs] obtain v where
    cw: "call_write c w = (Inr (Some v), console_log w1)" by blast
  with p show ?thesis by (simp add: console_log_def no_faults_def)
qed

subsection \<open>Opening a shop\<close>

text \<open>
  Claim C5. When createShop returns a result, the Shops table has one more row: its name,
  description and owner are those of the parameter object, and its establish date is the
  database's CURRENT_DATE at the time of the call. The parameter object has no date, and
  the INSERT binds three values, none of them for the EstablishDate column.
\<close>

theorem shop_established_today:
  assumes "fst (createShop shopInfo w) = Inr (Some v)"
  shows "shops (cur (snd (createShop shopInfo w))) =
           shops (cur w) @
             [\<lparr>s_shopid = new_id (map s_shopid (shops (cur w))),
               s_shopname = cs_shopname shopInfo,
               s_establishdate = today w,
               s_description = cs_description shopInfo,
               s_ownerid = cs_ownerid shopInfo\<rparr>]"
proof -
  from write_result [of "CreateShop shopInfo" w v] assms obtain rp where
    "run_stmt (today w) (now w) (mutation (CreateShop shopInfo)) (cur w) =
       Inr (rp, cur (snd (createShop shopInfo w)))"
    by auto
  then have eq: "cur (snd (createShop shopInfo w)) =
      (cur w)\<lparr>shops := shops (cur w) @
             [\<lparr>s_shopid = new_id (map s_shopid (shops (cur w))),
               s_shopname = cs_shopname shopInfo,
               s_establishdate = today w,
               s_description = cs_description shopInfo,
               s_ownerid = cs_ownerid shopInfo\<rparr>]\<rparr>"
    by (auto split: if_splits)
  show ?thesis unfolding eq by simp
qed

theorem shop_established_today_witness:
  "fst (createShop berry_shop demo_world) = Inr (Some (Results []))
   \<and> map s_establishdate (shops (cur (snd (createShop berry_shop demo_world)))) =
       [''2023-11-02'', ''2024-03-09'']
   \<and> today demo_world = ''2024-03-09''"
proof -
  have h: "fst (createShop berry_shop demo_world) = Inr (Some (Results []))"
    by code_simp
  show ?thesis
    using h shop_established_today [OF h]
    by (simp add: demo_world_def demo_tables_def)
qed

subsection \<open>Setting a quantity and reading it back\<close>

lemma filter_updated:
  "filter (\<lambda>r. p_shopid r = sh \<and> p_productid r = pr)
     (map (\<lambda>r. if p_shopid r = sh \<and> p_productid r = pr then r\<lparr>p_quantity := q\<rparr> else r) ps) =
   map (\<lambda>r. r\<lparr>p_quantity := q\<rparr>) (filter (\<lambda>r. p_shopid r = sh \<and> p_productid r = pr) ps)"
  by (induction ps) auto

lemma read_product:
  "\<not> next_fault w \<Longrightarrow> fst (getProduct shopid productid w) = Inr (product_at shopid productid (cur w))"
  by (simp add: getProduct_def query_alt engine_def product_at_def)

lemma no_faults_1: "no_faults 1 w \<Longrightarrow> \<not> next_fault w"
  by (cases "faults w") (auto simp: no_faults_def next_fault_def)

text \<open>
  Claim C3, as the code has it. Let the product exist, let \<open>N\<close> be an integer that a
  JavaScript number carries exactly and that the quantity column can hold, and let none of
  the five queries fail in the client. Then getProduct right after setProductQuantity with
  the quantity \<open>N\<close> returns the rows of that product, at least one, each with the
  quantity \<open>N\<close> and otherwise as it was.
\<close>

theorem quantity_read_back:
  assumes "no_faults 5 w" and "product_at shopid productid (cur w) \<noteq> []"
    and "safe_integer N" and "in_range (products_quantity_type (cur w)) N"
  shows "\<exists>rows. fst (getProduct shopid productid (snd (setProductQuantity shopid productid N w))) =
                  Inr rows
               \<and> rows \<noteq> []
               \<and> list_all (\<lambda>r. p_quantity r = N) rows
               \<and> rows = map (\<lambda>r. r\<lparr>p_quantity := N\<rparr>) (product_at shopid productid (cur w))"
proof -
  let ?c = "SetProductQuantity shopid productid N"
  let ?w = "snd (setProductQuantity shopid productid N w)"
  have "length (script ?c) + 1 = 5"
    by (simp add: script_def)
  with assms(1) have nf: "no_faults (length (script ?c) + 1) w"
    by simp
  from assms(4) obtain rp t' where
    ok: "run_stmt (today w) (now w) (mutation ?c) (cur w) = Inr (rp, t')"
    by simp
  from write_runs [OF nf ok] have w': "cur ?w = t'" "\<not> next_fault ?w"
    by (simp_all add: no_faults_1)
  from ok assms(4) have "product_at shopid productid t' =
      map (\<lambda>r. r\<lparr>p_quantity := N\<rparr>) (product_at shopid productid (cur w))"
    by (auto simp: product_at_def filter_updated)
  with read_product [OF w'(2)] w'(1) assms(2) show ?thesis
    by (simp add: list_all_iff)
qed

theorem quantity_read_back_witness:
  "no_faults 5 demo_world \<and> product_at 1 1 (cur demo_world) \<noteq> []
   \<and> safe_integer 7 \<and> in_range (products_quantity_type (cur demo_world)) 7
   \<and> fst (getProduct 1 1 (snd (setProductQuantity 1 1 7 demo_world))) =
       Inr [\<lparr>p_productid = 1, p_shopid = 1, p_price = 5, p_name = ''Pear'',
             p_quantity = 7, p_description = ''green''\<rparr>]"
proof -
  have h1: "no_faults 5 demo_world"
    by (simp add: no_faults_def demo_world_def)
  have h2: "product_at 1 1 (cur demo_world) \<noteq> []"
    by (simp add: product_at_def demo_world_def demo_tables_def)
  have h3: "safe_integer 7"
    by (simp add: safe_integer_def)
  have h4: "in_range (products_quantity_type (cur demo_world)) 7"
    by (simp add: in_range_def demo_world_def demo_tables_def)
  have p: "product_at 1 1 (cur demo_world) =
             [\<lparr>p_productid = 1, p_shopid = 1, p_price = 5, p_name = ''Pear'',
               p_quantity = 3, p_description = ''green''\<rparr>]"
    by (simp add: product_at_def demo_world_def demo_tables_def)
  show ?thesis
    using h1 h2 h3 h4 p quantity_read_back [OF h1 h2 h3 h4] by auto
qed

text \<open>
  The claim as stated fails for a quantity the column cannot hold. The product exists and
  no query fails in the client. With the quantity 2^31 and a column of type
  integer, the UPDATE fails, setProductQuantity returns \<open>undefined\<close>, and getProduct reads
  the old quantity 3. The same happens with the quantity 2^63 whichever of the
  three integer types the column has.
\<close>

theorem quantity_range_counterexample:
  "no_faults 5 demo_world \<and> product_at 1 1 (cur demo_world) \<noteq> []
   \<and> fst (setProductQuantity 1 1 2147483648 demo_world) = Inr None
   \<and> fst (getProduct 1 1 (snd (setProductQuantity 1 1 2147483648 demo_world))) =
       Inr [\<lparr>p_productid = 1, p_shopid = 1, p_price = 5, p_name = ''Pear'',
             p_quantity = 3, p_description = ''green''\<rparr>]
   \<and> fst (getProduct 1 1
        (snd (setProductQuantity 1 1 9223372036854775808 (typed_world SmallInt)))) =
       Inr [\<lparr>p_productid = 1, p_shopid = 1, p_price = 5, p_name = ''Pear'',
             p_quantity = 3, p_description = ''green''\<rparr>]
   \<and> fst (getProduct 1 1
        (snd (setProductQuantity 1 1 9223372036854775808 (typed_world Integer)))) =
       Inr [\<lparr>p_productid = 1, p_shopid = 1, p_price = 5, p_name = ''Pear'',
             p_quantity = 3, p_description = ''green''\<rparr>]
   \<and> fst (getProduct 1 1
        (snd (setProductQuantity 1 1 9223372036854775808 (typed_world BigInt)))) =
       Inr [\<lparr>p_productid = 1, p_shopid = 1, p_price = 5, p_name = ''Pear'',
             p_quantity = 3, p_description = ''green''\<rparr>]"
  by code_simp

subsection \<open>Signing up and fetching the user\<close>

lemma read_user_by_email:
  "\<not> next_fault w \<Longrightarrow>
     fst (getUserInfoByEmail email w) = Inr (filter (\<lambda>r. u_email r = email) (users (cur w)))"
  by (simp add: getUserInfoByEmail_def query_alt engine_def UserInfoView_def)

text \<open>
  Claim C6. For a signup whose email no user has yet, and when none of the four queries
  fails in the client, createUser returns a result and getUserInfoByEmail with the same
  email then returns one record: email, first name, last name and date of birth are those
  of the signup, and the password is the signup's password as it was given.
\<close>

theorem signup_then_fetch:
  assumes "no_faults 4 w" and "su_email userInfo \<notin> set (map u_email (users (cur w)))"
  shows "(\<exists>v. fst (createUser userInfo w) = Inr (Some v))
       \<and> fst (getUserInfoByEmail (su_email userInfo) (snd (createUser userInfo w))) =
           Inr [\<lparr>u_userid = new_id (map u_userid (users (cur w))),
                 u_email = su_email userInfo,
                 u_firstname = su_firstname userInfo,
                 u_lastname = su_lastname userInfo,
                 u_dob = su_dob userInfo,
                 u_password = su_password userInfo\<rparr>]"
proof -
  let ?c = "CreateUser userInfo"
  let ?row = "\<lparr>u_userid = new_id (map u_userid (users (cur w))),
                 u_email = su_email userInfo,
                 u_firstname = su_firstname userInfo,
                 u_lastname = su_lastname userInfo,
                 u_dob = su_dob userInfo,
                 u_password = su_password userInfo\<rparr>"
  have "length (script ?c) + 1 = 4"
    by (simp add: script_def)
  with assms(1) have nf: "no_faults (length (script ?c) + 1) w"
    by simp
  from assms(2) have ok: "run_stmt (today w) (now w) (mutation ?c) (cur w) =
      Inr (Written [] 1, (cur w)\<lparr>users := users (cur w) @ [?row]\<rparr>)"
    by simp
  from write_runs [OF nf ok] have
    w': "\<exists>v. fst (createUser userInfo w) = Inr (Some v)"
        "cur (snd (createUser userInfo w)) = (cur w)\<lparr>users := users (cur w) @ [?row]\<rparr>"
        "\<not> next_fault (snd (createUser userInfo w))"
    by (simp_all add: no_faults_1)
  from assms(2) have "filter (\<lambda>r. u_email r = su_email userInfo) (users (cur w)) = []"
    by (force simp: filter_empty_conv)
  with read_user_by_email [OF w'(3)] w'(1,2) show ?thesis
    by simp
qed

theorem signup_then_fetch_witness:
  "no_faults 4 demo_world \<and> su_email bob \<notin> set (map u_email (users (cur demo_world)))
   \<and> fst (getUserInfoByEmail ''bob@shop.org'' (snd (createUser bob demo_world))) =
       Inr [\<lparr>u_userid = 2, u_email = ''bob@shop.org'', u_firstname = ''Bob'',
             u_lastname = ''Ray'', u_dob = ''1985-01-30'', u_password = ''hunter2''\<rparr>]"
proof -
  have h1: "no_faults 4 demo_world"
    by (simp add: no_faults_def demo_world_def)
  have h2: "su_email bob \<notin> set (map u_email (users (cur demo_world)))"
    by (simp add: bob_def demo_world_def demo_tables_def)
  show ?thesis
    using h1 h2 signup_then_fetch [OF h1 h2]
    by (simp add: bob_def demo_world_def demo_tables_def new_id_def)
qed

subsection \<open>An operation that returns leaves no transaction open\<close>

lemma returned_closes_transaction:
  assumes "fst (call_write c w) = Inr v"
  shows "saved (snd (call_write c w)) = None"
proof (cases v)
  case (Some x)
  with assms write_result [of c w x] show ?thesis by simp
next
  case None
  obtain r w1 where rs: "run_script (script c) w = (r, w1)" by (cases "run_script (script c) w")
  show ?thesis
  proof (cases r)
    case (Inl e)
    with rs have f: "run_script (script c) w = (Inl e, w1)" by simp
    obtain r' w' where cb: "catch_block (failure_message c) e w1 = (r', w')"
      by (cases "catch_block (failure_message c) e w1")
    from call_write_fails [OF f] cb have cw: "call_write c w = (r', w')" by simp
    from catch_block_effect [OF cb] cw assms show ?thesis
      by (auto split: if_splits)
  next
    case (Inr rp)
    with rs call_write_succeeds [of c w rp w1] assms None show ?thesis by auto
  qed
qed

end
